theory Spec2Isabelle
  imports Main "HOL-Library.Char_ord" "HOL-Library.List_Lexorder"
begin

section \<open>The JSONPath engine of fastjson (jsonpath.go)\<close>

text \<open>
  The development follows \<^verbatim>\<open>jsonpath.go\<close>: the tokenizer, the step compiler, the
  filter parser and the tree evaluator, each Go function as a HOL function of the
  same name and each of its loops as a recursive function beside it.
  \<^item> A Go string is a list of bytes (\<^typ>\<open>string\<close>). The loops that range over runes
    only compare with ASCII characters and copy everything else, so on well-formed
    UTF-8 a loop over the bytes computes the same result.
  \<^item> A Go \<^verbatim>\<open>int\<close> is an \<^typ>\<open>int\<close>: the indices of a path are read by
    \<^verbatim>\<open>strconv.Atoi\<close>, which keeps them within 64 bits, and they are only added to
    the length of an array.
  \<^item> A \<^verbatim>\<open>*Value\<close> is a \<^typ>\<open>'a option\<close>, \<^term>\<open>None\<close> being the nil pointer.
  \<^item> A Go call that returns \<^verbatim>\<open>(x, err)\<close> is a sum: \<^term>\<open>Inr x\<close> when \<^verbatim>\<open>err\<close> is
    nil, \<^term>\<open>Inl (Err e)\<close> when an error value is returned, and
    \<^term>\<open>Inl (Panic p)\<close> when the Go runtime aborts the call (an index or a slice
    out of range, a nil pointer read, a failed type assertion).
\<close>

subsection \<open>Failures\<close>

datatype error =
    ErrGetFromNullObj
  | ErrShouldStartWithDollar
  | ErrRootInFront
  | ErrTailLen string
  | ErrOneRange "string list"
  | ErrAtoi string
  | ErrInvalidToken string
  | ErrEmptyKeySlice
  | ErrEmptyIndexSlice
  | ErrRangeArgs
  | ErrNotSupported
  | ErrKeyNotFound string
  | ErrNotMap string
  | ErrIndexOutOfRange int int
  | ErrNotSlice
  | ErrFromOutOfRange int
  | ErrToOutOfRange int
  | ErrFilterType
  | ErrInvalidChar nat
  | ErrRootInFrontOfFilter
  | ErrMultipleIndex
  | ErrEmptyRule
  | ErrRuleSyntax
  | ErrRegexp string
  | ErrOnlyString
  | ErrNotImplemented
  | ErrBadOp
  | ErrEval string
  | ErrNotBool

datatype panic =
    PanicIndex
  | PanicSliceBounds
  | PanicNilDeref
  | PanicTypeAssertion

datatype failure = Err error | Panic panic

subsection \<open>The Go library functions the engine calls\<close>

text \<open>\<^verbatim>\<open>strings.HasPrefix\<close>, \<^verbatim>\<open>strings.HasSuffix\<close>, \<^verbatim>\<open>strings.Index\<close> and
  \<^verbatim>\<open>strings.Contains\<close> (the last two are only called with a one-byte needle),
  \<^verbatim>\<open>strings.Split\<close> on a one-byte separator and \<^verbatim>\<open>strings.Trim\<close> with a one-byte
  cutset.\<close>

definition HasPrefix :: "string \<Rightarrow> string \<Rightarrow> bool" where
  "HasPrefix s p = (take (length p) s = p)"

definition HasSuffix :: "string \<Rightarrow> string \<Rightarrow> bool" where
  "HasSuffix s p = (length p \<le> length s \<and> drop (length s - length p) s = p)"

definition Contains :: "string \<Rightarrow> char \<Rightarrow> bool" where
  "Contains s c = (c \<in> set s)"

fun Index :: "string \<Rightarrow> char \<Rightarrow> nat option" where
  "Index [] c = None"
| "Index (x # xs) c = (if x = c then Some 0 else map_option Suc (Index xs c))"

fun Split :: "string \<Rightarrow> char \<Rightarrow> string list" where
  "Split [] c = [[]]"
| "Split (x # xs) c =
     (if x = c then [] # Split xs c
      else (x # hd (Split xs c)) # tl (Split xs c))"

definition Trim :: "string \<Rightarrow> char \<Rightarrow> string" where
  "Trim s c = rev (dropWhile (\<lambda>x. x = c) (rev (dropWhile (\<lambda>x. x = c) s)))"

text \<open>\<^verbatim>\<open>strconv.Atoi\<close>: an optional sign, then one or more decimal digits, the value
  within the 64-bit range; anything else is an error.\<close>

definition is_digit :: "char \<Rightarrow> bool" where
  "is_digit c = (48 \<le> (of_char c :: nat) \<and> (of_char c :: nat) \<le> 57)"

definition digits_value :: "string \<Rightarrow> int" where
  "digits_value ds = foldl (\<lambda>n c. n * 10 + (int (of_char c) - 48)) 0 ds"

definition Atoi :: "string \<Rightarrow> int option" where
  "Atoi s =
     (let neg = (s \<noteq> [] \<and> hd s = CHR ''-'');
          ds = (if s \<noteq> [] \<and> (hd s = CHR ''-'' \<or> hd s = CHR ''+'') then tl s else s)
      in if ds = [] \<or> \<not> list_all is_digit ds then None
         else let v = (if neg then - digits_value ds else digits_value ds)
              in if v < - (2 ^ 63) \<or> 2 ^ 63 - 1 < v then None else Some v)"

subsection \<open>Values\<close>

text \<open>
  Modelled from the spec: the value tree (type \<^verbatim>\<open>Value\<close>, its type tag \<^verbatim>\<open>t\<close>, its
  text \<^verbatim>\<open>s\<close>, its elements \<^verbatim>\<open>a\<close> and the accessors \<^verbatim>\<open>Get\<close>, \<^verbatim>\<open>Exists\<close> and
  \<^verbatim>\<open>Type\<close>) is declared by the parser of the repository, which is not among the
  sources. The spec gives it as a tagged union of object (a mapping from names to
  values), array (a sequence of values), string, number, boolean and null, with
  field lookup by name with a presence test and indexed element access; the
  constructors follow the type tags \<^verbatim>\<open>jsonpath.go\<close> names (\<^verbatim>\<open>TypeObject\<close>,
  \<^verbatim>\<open>TypeArray\<close>, \<^verbatim>\<open>TypeString\<close>, \<^verbatim>\<open>TypeNumber\<close>, \<^verbatim>\<open>TypeTrue\<close>, \<^verbatim>\<open>TypeFalse\<close>,
  \<^verbatim>\<open>TypeNull\<close>). A string is the text its field \<^verbatim>\<open>s\<close> holds; the tag the parser
  gives a string it has not unescaped yet (\<^verbatim>\<open>typeRawString\<close>) is not told apart from
  \<^verbatim>\<open>TypeString\<close>: the type switches of the engine treat both alike. The elements of
  an array are pointers, and \<^verbatim>\<open>get_key\<close> stores nil pointers in the arrays it
  builds, so an element is a \<^typ>\<open>'a option\<close>. A number keeps its text, as
  \<^verbatim>\<open>cmp_any\<close> reads it from \<^verbatim>\<open>s\<close>.
\<close>

datatype val =
    VObject "(string \<times> val) list"
  | VArray "val option list"
  | VString string
  | VNumber string
  | VTrue
  | VFalse
  | VNull

fun val_s :: "val \<Rightarrow> string" where
  "val_s (VString s) = s"
| "val_s (VNumber s) = s"
| "val_s v = []"

text \<open>\<^verbatim>\<open>v.Get(key)\<close>: the field of an object (the first entry with that name), the
  element of an array when the key is a decimal index within range, and nil
  otherwise, also on a nil receiver. \<^verbatim>\<open>v.Exists(key)\<close> tests the result for nil.\<close>

fun Get :: "val option \<Rightarrow> string \<Rightarrow> val option" where
  "Get None key = None"
| "Get (Some (VObject kvs)) key = map_of kvs key"
| "Get (Some (VArray a)) key =
     (case Atoi key of
        None \<Rightarrow> None
      | Some n \<Rightarrow> if n < 0 \<or> int (length a) \<le> n then None else a ! nat n)"
| "Get (Some v) key = None"

definition Exists :: "val option \<Rightarrow> string \<Rightarrow> bool" where
  "Exists v key = (Get v key \<noteq> None)"

subsection \<open>Accessors: \<^verbatim>\<open>get_key\<close>, \<^verbatim>\<open>get_idx\<close>, \<^verbatim>\<open>get_range\<close>\<close>

fun get_key :: "val option \<Rightarrow> string \<Rightarrow> failure + val option" where
  "get_key None key = Inl (Err ErrGetFromNullObj)"
| "get_key (Some v) key =
     (if length key = 0 then Inr (Some v)
      else case v of
        VObject kvs \<Rightarrow>
          if \<not> Exists (Some v) key then Inl (Err (ErrKeyNotFound key))
          else Inr (Get (Some v) key)
      | VArray a \<Rightarrow> Inr (Some (VArray (map (\<lambda>x. Get x key) a)))
      | _ \<Rightarrow> Inl (Err (ErrNotMap key)))"

fun get_idx :: "val option \<Rightarrow> int \<Rightarrow> failure + val option" where
  "get_idx None idx = Inl (Panic PanicNilDeref)"
| "get_idx (Some (VArray a)) idx =
     (let len = int (length a) in
      if idx \<ge> 0 then
        (if idx \<ge> len then Inl (Err (ErrIndexOutOfRange len idx))
         else Inr (a ! nat idx))
      else
        (let idx' = len + idx in
         if idx' < 0 then Inl (Err (ErrIndexOutOfRange len idx))
         else Inr (a ! nat idx')))"
| "get_idx (Some v) idx = Inl (Err ErrNotSlice)"

text \<open>In \<^verbatim>\<open>get_range\<close> the sum \<^verbatim>\<open>tv + 1\<close> is the one addition of the engine that can
  leave the 64-bit range (at the largest \<^verbatim>\<open>int\<close>, where Go wraps it to the smallest).
  The array is shorter than that, so the bound is rejected as out of range whether
  the sum wraps or not, and the sum is left as it is.\<close>

fun get_range :: "val option \<Rightarrow> int option \<Rightarrow> int option \<Rightarrow> failure + val option" where
  "get_range None frm to = Inl (Panic PanicNilDeref)"
| "get_range (Some (VArray a)) frm to =
     (let len = int (length a);
          fv = (case frm of None \<Rightarrow> 0 | Some f \<Rightarrow> f);
          tv = (case to of None \<Rightarrow> len - 1 | Some t \<Rightarrow> t);
          frm' = (if fv < 0 then len + fv else fv);
          to' = (if tv < 0 then len + tv + 1 else tv + 1)
      in if frm' < 0 \<or> frm' \<ge> len then Inl (Err (ErrFromOutOfRange fv))
         else if to' < 0 \<or> to' > len then Inl (Err (ErrToOutOfRange tv))
         else if frm' > to' then Inl (Panic PanicSliceBounds)
         else Inr (Some (VArray (take (nat (to' - frm')) (drop (nat frm') a)))))"
| "get_range (Some v) frm to = Inl (Err ErrNotSlice)"

subsection \<open>Tokenizer\<close>

text \<open>The loop of \<^verbatim>\<open>tokenize\<close> after its first character: \<^verbatim>\<open>tokens\<close> are the
  tokens emitted so far and \<^verbatim>\<open>token\<close> is the text being accumulated.
  \<^verbatim>\<open>tokens[len(tokens)-1]\<close> aborts on an empty slice.\<close>

definition strip_dot :: "string \<Rightarrow> string" where
  "strip_dot token = (if token \<noteq> [] \<and> hd token = CHR ''.'' then tl token else token)"

fun tokenize_loop :: "string \<Rightarrow> string list \<Rightarrow> string \<Rightarrow> failure + string list" where
  "tokenize_loop [] tokens token =
     (if length token > 0 then
        (let token' = strip_dot token in
         if token' \<noteq> ''*'' then Inr (tokens @ [token'])
         else if tokens = [] then Inl (Panic PanicIndex)
         else if last tokens \<noteq> ''*'' then Inr (tokens @ [token'])
         else Inr tokens)
      else Inr tokens)"
| "tokenize_loop (x # query) tokens token0 =
     (let token = token0 @ [x] in
      if token = ''.'' then tokenize_loop query tokens token
      else if token = ''..'' then
        (if tokens = [] then Inl (Panic PanicIndex)
         else tokenize_loop query
                (if last tokens \<noteq> ''*'' then tokens @ [''*''] else tokens) ''.'')
      else if Contains token CHR ''['' then
        (if x = CHR '']'' \<and> \<not> HasSuffix token [CHR 0x5C, CHR '']''] then
           tokenize_loop query (tokens @ [strip_dot token]) []
         else tokenize_loop query tokens token)
      else
        (if x = CHR ''.'' then
           tokenize_loop query (tokens @ [butlast (strip_dot token)]) ''.''
         else tokenize_loop query tokens token))"

definition tokenize :: "string \<Rightarrow> failure + string list" where
  "tokenize query =
     (case query of
        [] \<Rightarrow> Inr []
      | x # rest \<Rightarrow>
          if [x] = ''$'' \<or> [x] = ''@'' then tokenize_loop rest [[x]] []
          else Inl (Err ErrShouldStartWithDollar))"

subsection \<open>Step compiler\<close>

text \<open>\<^verbatim>\<open>step.args\<close> is an \<^verbatim>\<open>interface{}\<close>: nil, a \<^verbatim>\<open>[]string\<close>, a \<^verbatim>\<open>[]int\<close>, a
  \<^verbatim>\<open>[2]interface{}\<close> holding two optional integers, or a \<^verbatim>\<open>string\<close>.\<close>

datatype args =
    ArgsNil
  | ArgsStrings "string list"
  | ArgsInts "int list"
  | ArgsRange "int option" "int option"
  | ArgsString string

text \<open>The character test of \<^verbatim>\<open>parse_bracket_token\<close>, as written in its default
  branch; the cases before it take the quote, the operator and the logic
  characters.\<close>

definition ord :: "char \<Rightarrow> nat" where
  "ord c = of_char c"

definition rejected_char :: "char \<Rightarrow> bool" where
  "rejected_char v =
     (v \<notin> {CHR 0x27, CHR ''='', CHR ''!'', CHR ''<'', CHR ''>'', CHR ''~'', CHR ''&'', CHR ''|''} \<and>
      (ord v < ord CHR ''0'' \<or> ord v > ord CHR ''9'') \<and>
      (ord v < ord CHR ''a'' \<or> ord v > ord CHR ''z'') \<and>
      (ord v < ord CHR ''A'' \<and> ord v > ord CHR ''Z'') \<and>
      v \<noteq> CHR '','' \<and> v \<noteq> CHR ''@'' \<and> v \<noteq> CHR ''$'' \<and> v \<noteq> CHR ''.'')"

fun atoi_all :: "string list \<Rightarrow> error + int list" where
  "atoi_all [] = Inr []"
| "atoi_all (x # xs) =
     (case Atoi (Trim x CHR '' '') of
        None \<Rightarrow> Inl (ErrAtoi (Trim x CHR '' ''))
      | Some i \<Rightarrow> (case atoi_all xs of Inl e \<Rightarrow> Inl e | Inr res \<Rightarrow> Inr (i # res)))"

definition parse_bracket_token :: "string \<Rightarrow> string \<times> args \<times> error option" where
  "parse_bracket_token token =
     (let hasKey = list_ex (\<lambda>v. v = CHR 0x27) token;
          hasOp = list_ex (\<lambda>v. v \<in> {CHR ''='', CHR ''!'', CHR ''<'', CHR ''>'', CHR ''~''}) token;
          hasLogic = list_ex (\<lambda>v. v \<in> {CHR ''&'', CHR ''|''}) token
      in if list_ex rejected_char token then
           ([], ArgsString [], Some (ErrInvalidToken token))
         else if hasLogic \<or> hasOp then
           (''filter'', ArgsString (Trim token CHR '' ''), None)
         else if hasKey then
           (''key'',
            ArgsStrings (map (\<lambda>str. Trim (Trim str CHR '' '') (CHR 0x27)) (Split token CHR '','')),
            None)
         else
           (case atoi_all (Split token CHR '','') of
              Inl e \<Rightarrow> ([], ArgsNil, Some e)
            | Inr res \<Rightarrow> (''idx'', ArgsInts res, None)))"

definition parse_range :: "string \<Rightarrow> args \<times> error option" where
  "parse_range tail =
     (let tails = Split tail CHR '':'' in
      if length tails \<noteq> 2 then (ArgsNil, Some (ErrOneRange tails))
      else
        (let t0 = Trim (tails ! 0) CHR '' '';
             t1 = Trim (tails ! 1) CHR '' ''
         in (ArgsRange (Atoi t0) (Atoi t1),
             if Atoi t1 = None \<and> t1 \<noteq> [] then Some (ErrAtoi t1) else None)))"

definition parse_token :: "string \<Rightarrow> string \<times> string \<times> args \<times> error option" where
  "parse_token token =
     (if token = ''$'' then (''root'', ''$'', ArgsNil, None)
      else if token = ''*'' then (''scan'', ''*'', ArgsNil, None)
      else case Index token CHR ''['' of
        None \<Rightarrow> (''key'', token, ArgsNil, None)
      | Some bracket_idx \<Rightarrow>
          (let k = take bracket_idx token;
               tail0 = drop bracket_idx token
           in if length tail0 < 3 then ([], k, ArgsNil, Some (ErrTailLen tail0))
              else
                (let tail = butlast (tl tail0) in
                 if Contains tail CHR ''?'' then
                   (''filter'', k,
                    (if HasPrefix tail ''?('' \<and> HasSuffix tail '')''
                     then ArgsString (Trim (butlast (drop 2 tail)) CHR '' '')
                     else ArgsNil),
                    None)
                 else if Contains tail CHR '':'' then
                   (''range'', k, fst (parse_range tail), snd (parse_range tail))
                 else if tail = ''*'' then (''range'', k, ArgsRange None None, None)
                 else
                   (fst (parse_bracket_token tail), k,
                    fst (snd (parse_bracket_token tail)),
                    snd (snd (parse_bracket_token tail))))))"

record step =
  op :: string
  key :: string
  args :: args

record Compiled =
  path :: string
  steps :: "step list"

fun parse_tokens :: "string list \<Rightarrow> failure + step list" where
  "parse_tokens [] = Inr []"
| "parse_tokens (t # ts) =
     (case parse_token t of
        (o', k, a, Some e) \<Rightarrow> Inl (Err e)
      | (o', k, a, None) \<Rightarrow>
          (case parse_tokens ts of
             Inl e \<Rightarrow> Inl e
           | Inr ss \<Rightarrow> Inr (\<lparr>op = o', key = k, args = a\<rparr> # ss)))"

definition Compile :: "string \<Rightarrow> failure + Compiled" where
  "Compile jpath =
     (case tokenize jpath of
        Inl e \<Rightarrow> Inl e
      | Inr tokens \<Rightarrow>
          if tokens = [] then Inl (Panic PanicIndex)
          else if hd tokens \<noteq> ''@'' \<and> hd tokens \<noteq> ''$'' then Inl (Err ErrRootInFront)
          else (case parse_tokens (tl tokens) of
                  Inl e \<Rightarrow> Inl e
                | Inr ss \<Rightarrow> Inr \<lparr>path = jpath, steps = ss\<rparr>))"

subsection \<open>Filter expression parser\<close>

text \<open>The three results \<^verbatim>\<open>lp\<close>, \<^verbatim>\<open>op\<close>, \<^verbatim>\<open>rp\<close> of \<^verbatim>\<open>parse_filter\<close>, and the
  assignment \<^verbatim>\<open>switch stage\<close> makes to one of them.\<close>

type_synonym triple = "string \<times> string \<times> string"

definition set_field :: "nat \<Rightarrow> string \<Rightarrow> triple \<Rightarrow> triple" where
  "set_field stage tmp r =
     (case r of (lp, opr, rp) \<Rightarrow>
        if stage = 0 then (tmp, opr, rp)
        else if stage = 1 then (lp, tmp, rp)
        else if stage = 2 then (lp, opr, tmp)
        else r)"

fun parse_filter_loop ::
  "string \<Rightarrow> nat \<Rightarrow> string \<Rightarrow> nat \<Rightarrow> bool \<Rightarrow> triple \<Rightarrow> failure + triple" where
  "parse_filter_loop [] idx tmp stage str_embrace r =
     (if tmp \<noteq> [] then
        (if stage = 0 then (case r of (lp, opr, rp) \<Rightarrow> Inr (tmp, ''exists'', rp))
         else Inr (set_field stage tmp r))
      else Inr r)"
| "parse_filter_loop (c # cs) idx tmp stage str_embrace r =
     (if c = CHR 0x27 then
        (if \<not> str_embrace then parse_filter_loop cs (idx + 1) tmp stage True r
         else parse_filter_loop cs (idx + 1) [] stage str_embrace (set_field stage tmp r))
      else if c = CHR '' '' then
        (if str_embrace then parse_filter_loop cs (idx + 1) (tmp @ [c]) stage str_embrace r
         else if stage + 1 > 2 then Inl (Err (ErrInvalidChar idx))
         else parse_filter_loop cs (idx + 1) [] (stage + 1) str_embrace (set_field stage tmp r))
      else parse_filter_loop cs (idx + 1) (tmp @ [c]) stage str_embrace r)"

definition parse_filter :: "string \<Rightarrow> failure + triple" where
  "parse_filter flt = parse_filter_loop flt 0 [] 0 False ([], [], [])"

subsection \<open>Operand paths\<close>

fun explicit_path_loop :: "string list \<Rightarrow> val option \<Rightarrow> failure + val option" where
  "explicit_path_loop [] xobj = Inr xobj"
| "explicit_path_loop (s # ss) xobj =
     (case parse_token s of (o', k, a, err) \<Rightarrow>
        if o' = ''key'' then
          (case get_key xobj k of
             Inl e \<Rightarrow> Inl e
           | Inr x \<Rightarrow> explicit_path_loop ss x)
        else if o' = ''idx'' then
          (case a of
             ArgsInts is \<Rightarrow>
               if length is \<noteq> 1 then Inl (Err ErrMultipleIndex)
               else (case get_key xobj k of
                       Inl e \<Rightarrow> Inl e
                     | Inr x \<Rightarrow>
                         (case get_idx x (is ! 0) of
                            Inl e \<Rightarrow> Inl e
                          | Inr y \<Rightarrow> explicit_path_loop ss y))
           | _ \<Rightarrow> Inl (Panic PanicTypeAssertion))
        else Inl (Err ErrNotSupported))"

definition filter_get_from_explicit_path :: "val option \<Rightarrow> string \<Rightarrow> failure + val option" where
  "filter_get_from_explicit_path obj p =
     (case tokenize p of
        Inl e \<Rightarrow> Inl e
      | Inr toks \<Rightarrow>
          if toks = [] then Inl (Panic PanicIndex)
          else if hd toks \<noteq> ''@'' \<and> hd toks \<noteq> ''$'' then Inl (Err ErrRootInFrontOfFilter)
          else explicit_path_loop (tl toks) obj)"

definition get_lp_v :: "val option \<Rightarrow> val option \<Rightarrow> string \<Rightarrow> failure + val option" where
  "get_lp_v obj root lp =
     (if HasPrefix lp ''@.'' then filter_get_from_explicit_path obj lp
      else if HasPrefix lp ''$.'' then filter_get_from_explicit_path root lp
      else Inr (Some (VString lp)))"

subsection \<open>Comparison and regular expressions\<close>

text \<open>
  Three functions of the Go standard library decide a comparison and a match:
  \<^verbatim>\<open>strconv.ParseFloat\<close> (whether a text is a floating-point literal),
  \<^verbatim>\<open>types.Eval\<close> (the value of a Go expression, given as whether the result is a
  value and its printed form) and \<^verbatim>\<open>regexp.Compile\<close> (the matcher of a pattern).
  The engine takes them as given; \<^term>\<open>None\<close> is their error.
\<close>

record ext =
  ParseFloat_ok :: "string \<Rightarrow> bool"
  types_Eval :: "string \<Rightarrow> (bool \<times> string) option"
  regexp_Compile :: "string \<Rightarrow> (string \<Rightarrow> bool) option"

text \<open>\<^verbatim>\<open>len([]rune(rule))\<close> on well-formed UTF-8: the bytes that do not continue a
  character.\<close>

definition rune_count :: "string \<Rightarrow> nat" where
  "rune_count s = length (filter (\<lambda>c. \<not> (128 \<le> ord c \<and> ord c < 192)) s)"

definition regFilterCompile :: "ext \<Rightarrow> string \<Rightarrow> failure + (string \<Rightarrow> bool)" where
  "regFilterCompile E rule =
     (if rune_count rule \<le> 2 then Inl (Err ErrEmptyRule)
      else if hd rule \<noteq> CHR ''/'' \<or> last rule \<noteq> CHR ''/'' then Inl (Err ErrRuleSyntax)
      else (case regexp_Compile E (butlast (tl rule)) of
              None \<Rightarrow> Inl (Err (ErrRegexp (butlast (tl rule))))
            | Some pat \<Rightarrow> Inr pat))"

definition eval_reg_filter ::
  "val option \<Rightarrow> val option \<Rightarrow> string \<Rightarrow> (string \<Rightarrow> bool) \<Rightarrow> failure + bool" where
  "eval_reg_filter obj root lp pat =
     (case get_lp_v obj root lp of
        Inl e \<Rightarrow> Inl e
      | Inr None \<Rightarrow> Inl (Panic PanicNilDeref)
      | Inr (Some (VString s)) \<Rightarrow> Inr (pat s)
      | Inr (Some v) \<Rightarrow> Inl (Err ErrOnlyString))"

fun isNumber :: "ext \<Rightarrow> val option \<Rightarrow> failure + bool" where
  "isNumber E None = Inl (Panic PanicNilDeref)"
| "isNumber E (Some (VNumber s)) = Inr True"
| "isNumber E (Some (VString s)) = Inr (ParseFloat_ok E s)"
| "isNumber E (Some v) = Inr False"

definition cmp_any :: "ext \<Rightarrow> val option \<Rightarrow> val option \<Rightarrow> string \<Rightarrow> failure + bool" where
  "cmp_any E obj1 obj2 opr =
     (if opr \<notin> {''<'', ''<='', ''=='', ''!='', ''>='', ''>''} then Inl (Err ErrBadOp)
      else case isNumber E obj1 of
        Inl e \<Rightarrow> Inl e
      | Inr n1 \<Rightarrow>
          (case (if n1 then isNumber E obj2 else Inr False) of
             Inl e \<Rightarrow> Inl e
           | Inr n2 \<Rightarrow>
               (case (obj1, obj2) of
                  (Some v1, Some v2) \<Rightarrow>
                    (let exp =
                       (if n2 then val_s v1 @ '' '' @ opr @ '' '' @ val_s v2
                        else [CHR 0x22] @ val_s v1 @ [CHR 0x22] @ '' '' @ opr @ '' '' @
                             [CHR 0x22] @ val_s v2 @ [CHR 0x22])
                     in case types_Eval E exp of
                          None \<Rightarrow> Inl (Err (ErrEval exp))
                        | Some (is_value, str) \<Rightarrow>
                            if \<not> is_value \<or> (str \<noteq> ''false'' \<and> str \<noteq> ''true'')
                            then Inl (Err ErrNotBool)
                            else Inr (str = ''true''))
                | _ \<Rightarrow> Inl (Panic PanicNilDeref))))"

text \<open>\<^verbatim>\<open>eval_filter\<close> does not look at the error of an operand path: the operand is
  then nil.\<close>

definition drop_err :: "failure + val option \<Rightarrow> panic + val option" where
  "drop_err r = (case r of Inl (Err e) \<Rightarrow> Inr None | Inl (Panic p) \<Rightarrow> Inl p | Inr v \<Rightarrow> Inr v)"

definition eval_filter ::
  "ext \<Rightarrow> val option \<Rightarrow> val option \<Rightarrow> string \<Rightarrow> string \<Rightarrow> string \<Rightarrow> failure + bool" where
  "eval_filter E obj root lp opr rp =
     (case drop_err (get_lp_v obj root lp) of
        Inl p \<Rightarrow> Inl (Panic p)
      | Inr lp_v \<Rightarrow>
          if opr = ''exists'' then Inr (lp_v \<noteq> None)
          else if opr = ''=~'' then Inl (Err ErrNotImplemented)
          else (case drop_err (get_lp_v obj root rp) of
                  Inl p \<Rightarrow> Inl (Panic p)
                | Inr rp_v \<Rightarrow> cmp_any E lp_v rp_v opr))"

subsection \<open>Filter evaluation\<close>

text \<open>The loop \<^verbatim>\<open>for _, tmp := range obj.a\<close> of \<^verbatim>\<open>get_filtered\<close>: the elements the
  test accepts, or the first failure of the test.\<close>

fun keep_matching :: "('a \<Rightarrow> failure + bool) \<Rightarrow> 'a list \<Rightarrow> failure + 'a list" where
  "keep_matching f [] = Inr []"
| "keep_matching f (x # xs) =
     (case f x of
        Inl e \<Rightarrow> Inl e
      | Inr ok \<Rightarrow>
          (case keep_matching f xs of
             Inl e \<Rightarrow> Inl e
           | Inr res \<Rightarrow> Inr (if ok then x # res else res)))"

definition get_filtered ::
  "ext \<Rightarrow> val option \<Rightarrow> val option \<Rightarrow> string \<Rightarrow> failure + (bool \<times> val option list)" where
  "get_filtered E obj root flt =
     (case parse_filter flt of
        Inl e \<Rightarrow> Inl e
      | Inr (lp, opr, rp) \<Rightarrow>
          (case obj of
             None \<Rightarrow> Inl (Panic PanicNilDeref)
           | Some (VArray a) \<Rightarrow>
               if opr = ''=~'' then
                 (case regFilterCompile E rp of
                    Inl e \<Rightarrow> Inl e
                  | Inr pat \<Rightarrow>
                      (case keep_matching (\<lambda>tmp. eval_reg_filter tmp root lp pat) a of
                         Inl e \<Rightarrow> Inl e
                       | Inr res \<Rightarrow> Inr (True, res)))
               else
                 (case keep_matching (\<lambda>tmp. eval_filter E tmp root lp opr rp) a of
                    Inl e \<Rightarrow> Inl e
                  | Inr res \<Rightarrow> Inr (True, res))
           | Some (VObject kvs) \<Rightarrow>
               if opr = ''=~'' then
                 (case regFilterCompile E rp of
                    Inl e \<Rightarrow> Inl e
                  | Inr pat \<Rightarrow>
                      (case eval_reg_filter obj root lp pat of
                         Inl e \<Rightarrow> Inl e
                       | Inr ok \<Rightarrow> Inr (False, if ok then [obj] else [])))
               else
                 (case eval_filter E obj root lp opr rp of
                    Inl e \<Rightarrow> Inl e
                  | Inr ok \<Rightarrow> Inr (False, if ok then [obj] else []))
           | Some v \<Rightarrow> Inl (Err ErrFilterType)))"

subsection \<open>Tree evaluator\<close>

fun collect :: "('a \<Rightarrow> failure + val option) \<Rightarrow> 'a list \<Rightarrow> failure + val option list" where
  "collect f [] = Inr []"
| "collect f (x # xs) =
     (case f x of
        Inl e \<Rightarrow> Inl e
      | Inr tmp \<Rightarrow>
          (case collect f xs of
             Inl e \<Rightarrow> Inl e
           | Inr res \<Rightarrow> Inr (tmp # res)))"

text \<open>The first statement of the \<^verbatim>\<open>key\<close>, \<^verbatim>\<open>idx\<close> and \<^verbatim>\<open>range\<close> cases:
  \<^verbatim>\<open>get_key\<close> when \<^verbatim>\<open>len(s.key) > 0\<close>.\<close>

definition key_first :: "step \<Rightarrow> val option \<Rightarrow> failure + val option" where
  "key_first s obj = (if length (key s) > 0 then get_key obj (key s) else Inr obj)"

definition step_key :: "step \<Rightarrow> val option \<Rightarrow> failure + val option" where
  "step_key s obj =
     (case key_first s obj of
        Inl e \<Rightarrow> Inl e
      | Inr obj1 \<Rightarrow>
          (case args s of
             ArgsNil \<Rightarrow> Inr obj1
           | ArgsStrings xs \<Rightarrow>
               if length xs > 1 then
                 (case collect (get_key obj1) xs of
                    Inl e \<Rightarrow> Inl e
                  | Inr res \<Rightarrow> Inr (Some (VArray res)))
               else if length xs = 1 then get_key obj1 (xs ! 0)
               else Inl (Err ErrEmptyKeySlice)
           | _ \<Rightarrow> Inl (Panic PanicTypeAssertion)))"

definition step_idx :: "step \<Rightarrow> val option \<Rightarrow> failure + val option" where
  "step_idx s obj =
     (case key_first s obj of
        Inl e \<Rightarrow> Inl e
      | Inr obj1 \<Rightarrow>
          (case args s of
             ArgsInts xs \<Rightarrow>
               if length xs > 1 then
                 (case collect (get_idx obj1) xs of
                    Inl e \<Rightarrow> Inl e
                  | Inr res \<Rightarrow> Inr (Some (VArray res)))
               else if length xs = 1 then get_idx obj1 (xs ! 0)
               else Inl (Err ErrEmptyIndexSlice)
           | _ \<Rightarrow> Inl (Panic PanicTypeAssertion)))"

definition step_range :: "step \<Rightarrow> val option \<Rightarrow> failure + val option" where
  "step_range s obj =
     (case key_first s obj of
        Inl e \<Rightarrow> Inl e
      | Inr obj1 \<Rightarrow>
          (case args s of
             ArgsRange frm to \<Rightarrow> get_range obj1 frm to
           | _ \<Rightarrow> Inl (Err ErrRangeArgs)))"

text \<open>The \<^verbatim>\<open>filter\<close> case either goes on with a value (\<^term>\<open>Inr (Some obj)\<close>) or
  leaves \<^verbatim>\<open>Lookup\<close> with \<^verbatim>\<open>return nil, nil\<close> (\<^term>\<open>Inr None\<close>).\<close>

definition step_filter ::
  "ext \<Rightarrow> val option \<Rightarrow> step \<Rightarrow> val option \<Rightarrow> failure + val option option" where
  "step_filter E root s obj =
     (case get_key obj (key s) of
        Inl e \<Rightarrow> Inl e
      | Inr obj1 \<Rightarrow>
          (case args s of
             ArgsString flt \<Rightarrow>
               (case get_filtered E obj1 root flt of
                  Inl e \<Rightarrow> Inl e
                | Inr (isArr, ret) \<Rightarrow>
                    if isArr then Inr (Some (Some (VArray ret)))
                    else if length ret = 0 then Inr None
                    else Inr (Some (ret ! 0)))
           | _ \<Rightarrow> Inl (Panic PanicTypeAssertion)))"

fun Lookup_loop :: "ext \<Rightarrow> val option \<Rightarrow> step list \<Rightarrow> val option \<Rightarrow> failure + val option" where
  "Lookup_loop E root [] obj = Inr obj"
| "Lookup_loop E root (s # ss) obj =
     (if op s = ''key'' then
        (case step_key s obj of
           Inl e \<Rightarrow> Inl e
         | Inr obj1 \<Rightarrow> Lookup_loop E root ss obj1)
      else if op s = ''idx'' then
        (case step_idx s obj of
           Inl e \<Rightarrow> Inl e
         | Inr obj1 \<Rightarrow> Lookup_loop E root ss obj1)
      else if op s = ''range'' then
        (case step_range s obj of
           Inl e \<Rightarrow> Inl e
         | Inr obj1 \<Rightarrow> Lookup_loop E root ss obj1)
      else if op s = ''filter'' then
        (case step_filter E root s obj of
           Inl e \<Rightarrow> Inl e
         | Inr None \<Rightarrow> Inr None
         | Inr (Some obj1) \<Rightarrow> Lookup_loop E root ss obj1)
      else Inl (Err ErrNotSupported))"

definition Lookup :: "ext \<Rightarrow> Compiled \<Rightarrow> val option \<Rightarrow> failure + val option" where
  "Lookup E c root = Lookup_loop E root (steps c) root"

definition JsonPathLookup :: "ext \<Rightarrow> val option \<Rightarrow> string \<Rightarrow> failure + val option" where
  "JsonPathLookup E obj jpath =
     (case Compile jpath of
        Inl e \<Rightarrow> Inl e
      | Inr c \<Rightarrow> Lookup E c obj)"

text \<open>An environment for running examples: its regular expressions know the one
  pattern \<^verbatim>\<open>.*\<close>, which matches every string; every other call of a library
  evaluator reports its error.\<close>

definition ext_sample :: ext where
  "ext_sample =
     \<lparr>ParseFloat_ok = (\<lambda>s. False),
      types_Eval = (\<lambda>s. None),
      regexp_Compile = (\<lambda>p. if p = ''.*'' then Some (\<lambda>s. True) else None)\<rparr>"

subsection \<open>The string comparison of the specification\<close>

text \<open>
  The comparison the specification asks of two operands that are not both numbers:
  the lexicographic order of their texts (bytes compared by their codes, as Go
  compares strings), under the same operator. \<^verbatim>\<open>cmp_any\<close> is compared with it below.
\<close>

definition spec_string_compare :: "string \<Rightarrow> string \<Rightarrow> string \<Rightarrow> bool" where
  "spec_string_compare opr s1 s2 =
     (if opr = ''=='' then s1 = s2
      else if opr = ''!='' then s1 \<noteq> s2
      else if opr = ''<'' then s1 < s2
      else if opr = ''<='' then s1 \<le> s2
      else if opr = ''>'' then s1 > s2
      else s1 \<ge> s2)"

section \<open>Properties\<close>

subsection \<open>Auxiliary facts\<close>

lemma Index_append_char:
  "c \<notin> set k \<Longrightarrow> Index (k @ c # rest) c = Some (length k)"
  by (induction k) auto

lemma parse_filter_loop_no_panic:
  "parse_filter_loop cs idx tmp stage emb r \<noteq> Inl (Panic p)"
  by (induction cs arbitrary: idx tmp stage emb r) (auto split: prod.splits)

lemma parse_filter_no_panic: "parse_filter flt \<noteq> Inl (Panic p)"
  by (simp add: parse_filter_def parse_filter_loop_no_panic)

lemma parse_filter_cases:
  obtains e where "parse_filter flt = Inl (Err e)" | r where "parse_filter flt = Inr r"
proof (cases "parse_filter flt")
  case (Inl f)
  then show ?thesis using parse_filter_no_panic [of flt] that(1) by (cases f) auto
next
  case (Inr r)
  then show ?thesis using that(2) by blast
qed

lemma get_filtered_scalar:
  assumes "\<forall>kvs. v \<noteq> VObject kvs" and "\<forall>a. v \<noteq> VArray a"
  shows "\<exists>e. get_filtered E (Some v) root flt = Inl (Err e)"
proof (rule parse_filter_cases [of flt])
  fix e assume "parse_filter flt = Inl (Err e)"
  then show ?thesis by (simp add: get_filtered_def)
next
  fix r assume "parse_filter flt = Inr r"
  with assms show ?thesis by (cases v) (simp_all add: get_filtered_def split: prod.splits)
qed

lemma compile_bare_question:
  "Compile ''$[?x]''
     = Inr \<lparr>path = ''$[?x]'', steps = [\<lparr>op = ''filter'', key = [], args = ArgsNil\<rparr>]\<rparr>"
  by code_simp

subsection \<open>Failures are values\<close>

text \<open>
  C1. \<^verbatim>\<open>Compile\<close> and \<^verbatim>\<open>Lookup\<close> are claimed to return every failure as an error
  value. Three inputs on which the code aborts instead: the empty path (\<^verbatim>\<open>tokenize\<close>
  returns no token and \<^verbatim>\<open>Compile\<close> reads \<^verbatim>\<open>tokens[0]\<close>); the path \<^verbatim>\<open>$[?x]\<close> on
  any value (the step is compiled with nil arguments and \<^verbatim>\<open>Lookup\<close> asserts them to
  be a string); and the slice \<^verbatim>\<open>$[2:0]\<close> on an array of three elements (both bounds
  pass the range tests and \<^verbatim>\<open>obj.a[2:1]\<close> is taken).
\<close>

theorem compile_lookup_abort:
  "Compile [] = Inl (Panic PanicIndex)
   \<and> JsonPathLookup E (Some v) ''$[?x]'' = Inl (Panic PanicTypeAssertion)
   \<and> JsonPathLookup E (Some (VArray [Some VTrue, Some VTrue, Some VTrue])) ''$[2:0]''
       = Inl (Panic PanicSliceBounds)"
proof -
  have a: "Compile [] = Inl (Panic PanicIndex)" by code_simp
  have b: "JsonPathLookup E (Some v) ''$[?x]'' = Inl (Panic PanicTypeAssertion)"
    by (simp add: JsonPathLookup_def compile_bare_question Lookup_def step_filter_def)
  have c: "Compile ''$[2:0]''
      = Inr \<lparr>path = ''$[2:0]'',
             steps = [\<lparr>op = ''range'', key = [], args = ArgsRange (Some 2) (Some 0)\<rparr>]\<rparr>"
    by code_simp
  have d: "JsonPathLookup E (Some (VArray [Some VTrue, Some VTrue, Some VTrue])) ''$[2:0]''
      = Inl (Panic PanicSliceBounds)"
    by (simp add: JsonPathLookup_def c Lookup_def step_range_def key_first_def)
  from a b d show ?thesis by simp
qed

subsection \<open>The wildcard-scan step\<close>

text \<open>
  C2, as claimed: \<^verbatim>\<open>Lookup\<close> evaluates a scan step by broadcasting the next step over
  the children of the current value. The path \<^verbatim>\<open>$..author\<close> compiles to a scan step
  and a key step, and \<^verbatim>\<open>Lookup\<close> fails on an object that has the field.
\<close>

theorem lookup_scan_example_fails:
  "JsonPathLookup ext_sample (Some (VObject [(''author'', VString ''x'')])) ''$..author''
     = Inl (Err ErrNotSupported)"
  by code_simp

text \<open>
  C2, amended. \<^verbatim>\<open>Lookup\<close> has no case for the scan step: when it reaches one it
  fails with the error of an unsupported expression, whatever the current value and
  the steps that follow, so a path that contains a scan step never yields a value.
  \<^verbatim>\<open>*\<close> is compiled to a scan step; the tokenizer emits one \<^verbatim>\<open>*\<close> for \<^verbatim>\<open>..\<close> and
  does not emit a second one right after it (\<^verbatim>\<open>$....author\<close>), while two \<^verbatim>\<open>*\<close>
  segments separated by a dot stay two tokens (\<^verbatim>\<open>$.*.*.a\<close>).
\<close>

theorem lookup_scan_not_supported:
  assumes "op s = ''scan''"
  shows "Lookup_loop E root (s # ss) obj = Inl (Err ErrNotSupported)
     \<and> (\<forall>pre v. Lookup_loop E root (pre @ s # ss) obj \<noteq> Inr (Some v))
     \<and> parse_token ''*'' = (''scan'', ''*'', ArgsNil, None)
     \<and> tokenize ''$..author'' = Inr [''$'', ''*'', ''author'']
     \<and> tokenize ''$....author'' = Inr [''$'', ''*'', ''author'']
     \<and> tokenize ''$.*.*.a'' = Inr [''$'', ''*'', ''*'', ''a'']"
proof -
  have here: "Lookup_loop E root (s # ss) x = Inl (Err ErrNotSupported)" for x
    using assms by simp
  have later: "Lookup_loop E root (pre @ s # ss) x \<noteq> Inr (Some v)" for pre x v
  proof (induction pre arbitrary: x)
    case Nil
    then show ?case using here by simp
  next
    case (Cons p pre)
    then show ?case by (auto split: sum.splits option.splits)
  qed
  have t0: "parse_token ''*'' = (''scan'', ''*'', ArgsNil, None)" by code_simp
  have t1: "tokenize ''$..author'' = Inr [''$'', ''*'', ''author'']" by code_simp
  have t2: "tokenize ''$....author'' = Inr [''$'', ''*'', ''author'']" by code_simp
  have t3: "tokenize ''$.*.*.a'' = Inr [''$'', ''*'', ''*'', ''a'']" by code_simp
  from here later t0 t1 t2 t3 show ?thesis by blast
qed

theorem lookup_scan_not_supported_witness:
  "op \<lparr>op = ''scan'', key = ''*'', args = ArgsNil\<rparr> = ''scan''
   \<and> Lookup_loop ext_sample (Some (VObject [(''author'', VString ''x'')]))
        [\<lparr>op = ''scan'', key = ''*'', args = ArgsNil\<rparr>,
         \<lparr>op = ''key'', key = ''author'', args = ArgsNil\<rparr>]
        (Some (VObject [(''author'', VString ''x'')]))
       = Inl (Err ErrNotSupported)"
proof -
  have o: "op \<lparr>op = ''scan'', key = ''*'', args = ArgsNil\<rparr> = ''scan''" by simp
  from lookup_scan_not_supported [OF o] o show ?thesis by blast
qed

subsection \<open>Steps against null\<close>

text \<open>
  C3, as claimed: every step evaluated against a null current value makes \<^verbatim>\<open>Lookup\<close>
  return an error. The path \<^verbatim>\<open>$.a.\<close> compiles to the key step \<^verbatim>\<open>a\<close> and a key
  step with the empty key; on \<^verbatim>\<open>{"a": null}\<close> the second step meets the null,
  \<^verbatim>\<open>len(s.key) > 0\<close> is false, and \<^verbatim>\<open>Lookup\<close> returns the null with no error.
\<close>

theorem lookup_null_empty_key_step:
  "Compile ''$.a.''
     = Inr \<lparr>path = ''$.a.'',
            steps = [\<lparr>op = ''key'', key = ''a'', args = ArgsNil\<rparr>,
                     \<lparr>op = ''key'', key = [], args = ArgsNil\<rparr>]\<rparr>
   \<and> JsonPathLookup ext_sample (Some (VObject [(''a'', VNull)])) ''$.a.'' = Inr (Some VNull)"
  by code_simp

text \<open>
  C3, amended. Every step with a key that is not empty, evaluated against a null
  current value (the JSON null or a nil value), makes \<^verbatim>\<open>Lookup\<close> return an error;
  so do, against the JSON null, a slice step, an index step with its index list, a
  filter step with its predicate text and a step of any other kind than key, all
  with the empty key. A key step with the empty key and no key list leaves the
  current value as it is, null or not, and \<^verbatim>\<open>Lookup\<close> goes on with the next step.
\<close>

theorem lookup_null_step_fails:
  "((obj = None \<or> obj = Some VNull) \<and>
    (key s \<noteq> [] \<or>
       (obj = Some VNull \<and>
         (op s = ''range'' \<or> (op s = ''idx'' \<and> (\<exists>xs. args s = ArgsInts xs)) \<or>
          (op s = ''filter'' \<and> (\<exists>f. args s = ArgsString f)) \<or>
          op s \<notin> {''key'', ''idx'', ''range'', ''filter''})))
      \<longrightarrow> (\<exists>e. Lookup_loop E root (s # ss) obj = Inl (Err e)))
   \<and> (op s = ''key'' \<and> key s = [] \<and> args s = ArgsNil
      \<longrightarrow> Lookup_loop E root (s # ss) obj = Lookup_loop E root ss obj)"
proof (intro conjI impI)
  assume "op s = ''key'' \<and> key s = [] \<and> args s = ArgsNil"
  then show "Lookup_loop E root (s # ss) obj = Lookup_loop E root ss obj"
    by (simp add: step_key_def key_first_def)
next
  assume h: "(obj = None \<or> obj = Some VNull) \<and>
    (key s \<noteq> [] \<or>
       (obj = Some VNull \<and>
         (op s = ''range'' \<or> (op s = ''idx'' \<and> (\<exists>xs. args s = ArgsInts xs)) \<or>
          (op s = ''filter'' \<and> (\<exists>f. args s = ArgsString f)) \<or>
          op s \<notin> {''key'', ''idx'', ''range'', ''filter''})))"
  then have null: "obj = None \<or> obj = Some VNull" by blast
  show "\<exists>e. Lookup_loop E root (s # ss) obj = Inl (Err e)"
  proof (cases "key s = []")
    case False
    have "\<exists>e. get_key obj (key s) = Inl (Err e)"
      using null False by auto
    then obtain e where e: "get_key obj (key s) = Inl (Err e)" ..
    have "key_first s obj = Inl (Err e)" using False e by (simp add: key_first_def)
    then show ?thesis using e
      by (simp add: step_key_def step_idx_def step_range_def step_filter_def)
  next
    case True
    with h have o: "obj = Some VNull"
      and kind: "op s = ''range'' \<or> (op s = ''idx'' \<and> (\<exists>xs. args s = ArgsInts xs)) \<or>
               (op s = ''filter'' \<and> (\<exists>f. args s = ArgsString f)) \<or>
               op s \<notin> {''key'', ''idx'', ''range'', ''filter''}"
      by auto
    have kf: "key_first s obj = Inr obj" using True by (simp add: key_first_def)
    from kind consider
        (range) "op s = ''range''"
      | (idx) xs where "op s = ''idx''" "args s = ArgsInts xs"
      | (filter) f where "op s = ''filter''" "args s = ArgsString f"
      | (other) "op s \<notin> {''key'', ''idx'', ''range'', ''filter''}"
      by blast
    then show ?thesis
    proof cases
      case range
      then show ?thesis using kf o by (cases "args s") (simp_all add: step_range_def)
    next
      case idx
      have "\<exists>e. collect (get_idx (Some VNull)) xs = Inl (Err e)" if "xs \<noteq> []"
        using that by (cases xs) simp_all
      moreover have "length xs > 1 \<Longrightarrow> xs \<noteq> []" by auto
      ultimately show ?thesis using idx kf o
        by (cases "length xs > 1") (auto simp add: step_idx_def)
    next
      case filter
      have "\<exists>e. get_filtered E (Some VNull) root f = Inl (Err e)"
        by (rule get_filtered_scalar) simp_all
      then show ?thesis using filter True o by (auto simp add: step_filter_def)
    next
      case other
      then show ?thesis by simp
    qed
  qed
qed

theorem lookup_null_step_fails_witness:
  "key \<lparr>op = ''key'', key = ''author'', args = ArgsNil\<rparr> \<noteq> []
   \<and> Lookup_loop ext_sample (Some (VObject [(''head_commit'', VNull)]))
        [\<lparr>op = ''key'', key = ''author'', args = ArgsNil\<rparr>,
         \<lparr>op = ''key'', key = ''username'', args = ArgsNil\<rparr>]
        (Some VNull)
       = Inl (Err (ErrNotMap ''author''))
   \<and> JsonPathLookup ext_sample (Some (VObject [(''head_commit'', VNull)]))
        ''$.head_commit.author.username''
       = Inl (Err (ErrNotMap ''author''))
   \<and> Lookup_loop ext_sample (Some (VObject [(''a'', VNull)]))
        [\<lparr>op = ''key'', key = [], args = ArgsNil\<rparr>] (Some VNull)
       = Inr (Some VNull)"
proof -
  let ?s = "\<lparr>op = ''key'', key = ''author'', args = ArgsNil\<rparr>"
  let ?ss = "[\<lparr>op = ''key'', key = ''username'', args = ArgsNil\<rparr>]"
  let ?root = "Some (VObject [(''head_commit'', VNull)])"
  let ?t = "\<lparr>op = ''key'', key = [], args = ArgsNil\<rparr>"
  have k: "key ?s \<noteq> []" by simp
  have "\<exists>e. Lookup_loop ext_sample ?root (?s # ?ss) (Some VNull) = Inl (Err e)"
    using lookup_null_step_fails [of "Some VNull" ?s ext_sample ?root ?ss] k by blast
  moreover have "Lookup_loop ext_sample ?root (?s # ?ss) (Some VNull)
      = Inl (Err (ErrNotMap ''author''))"
    by code_simp
  moreover have "JsonPathLookup ext_sample ?root ''$.head_commit.author.username''
      = Inl (Err (ErrNotMap ''author''))"
    by code_simp
  moreover have "Lookup_loop ext_sample (Some (VObject [(''a'', VNull)])) [?t] (Some VNull)
      = Lookup_loop ext_sample (Some (VObject [(''a'', VNull)])) [] (Some VNull)"
    using lookup_null_step_fails [of "Some VNull" ?t ext_sample "Some (VObject [(''a'', VNull)])" "[]"]
    by simp
  ultimately show ?thesis using k by simp
qed

subsection \<open>Slicing\<close>

text \<open>
  C4, as claimed: a slice step with both bounds unspecified succeeds on every array,
  the empty one included. On the empty array \<^verbatim>\<open>get_range\<close> takes \<open>from = 0\<close> and
  the test \<^verbatim>\<open>_frm >= length\<close> rejects it.
\<close>

theorem get_range_default_empty_fails:
  "get_range (Some (VArray [])) None None = Inl (Err (ErrFromOutOfRange 0))"
  by simp

text \<open>
  C4, amended. For every array that is not empty, a slice step with both bounds
  unspecified succeeds and yields the whole array; on the empty array it fails with
  the range error of the lower bound.
\<close>

theorem get_range_default_bounds:
  "get_range (Some (VArray a)) None None =
     (if a = [] then Inl (Err (ErrFromOutOfRange 0)) else Inr (Some (VArray a)))"
  by (cases a) (simp_all add: Let_def)

theorem get_range_default_bounds_witness:
  "get_range (Some (VArray [Some VTrue, Some VFalse])) None None
     = Inr (Some (VArray [Some VTrue, Some VFalse]))"
  using get_range_default_bounds [of "[Some VTrue, Some VFalse]"] by simp

subsection \<open>Bracket contents\<close>

text \<open>
  C5. A character outside the letters, the digits, comma, \<^verbatim>\<open>@\<close>, \<^verbatim>\<open>$\<close>, \<^verbatim>\<open>.\<close>, the
  quote, the comparison and the logic characters is claimed to fail the compilation.
  The test of \<^verbatim>\<open>parse_bracket_token\<close> asks for a character below \<^verbatim>\<open>'A'\<close> and above
  \<^verbatim>\<open>'Z'\<close> at once, so it rejects no character: \<^verbatim>\<open>parse_bracket_token\<close> never
  reports an invalid token, and \<^verbatim>\<open>$['a#b']\<close> compiles to a key step.
\<close>

theorem bracket_token_never_rejected:
  "\<not> rejected_char c
   \<and> snd (snd (parse_bracket_token t)) \<noteq> Some (ErrInvalidToken u)
   \<and> Compile ''$['a#b']''
       = Inr \<lparr>path = ''$['a#b']'',
              steps = [\<lparr>op = ''key'', key = [], args = ArgsStrings [''a#b'']\<rparr>]\<rparr>"
proof -
  have r: "\<not> rejected_char x" for x by (simp add: rejected_char_def ord_def)
  then have l: "\<not> list_ex rejected_char t" by (simp add: list_ex_iff)
  have a: "atoi_all xs \<noteq> Inl (ErrInvalidToken u)" for xs
    by (induction xs) (auto split: option.splits sum.splits)
  have p: "snd (snd (parse_bracket_token t)) \<noteq> Some (ErrInvalidToken u)"
    using l a [of "Split t CHR '',''"]
    by (auto simp add: parse_bracket_token_def Let_def split: sum.splits)
  have c: "Compile ''$['a#b']''
       = Inr \<lparr>path = ''$['a#b']'',
              steps = [\<lparr>op = ''key'', key = [], args = ArgsStrings [''a#b'']\<rparr>]\<rparr>"
    by code_simp
  from r p c show ?thesis by blast
qed

subsection \<open>Filter brackets without the wrapper\<close>

text \<open>
  C6. A bracket whose interior contains \<^verbatim>\<open>?\<close> is a filter step, and without the
  wrapper \<^verbatim>\<open>?( )\<close> the compilation is claimed to fail. \<^verbatim>\<open>parse_token\<close> sets the
  operator, leaves the arguments nil and returns no error: \<^verbatim>\<open>$[?x]\<close> compiles.
\<close>

theorem filter_without_wrapper_compiles:
  assumes "CHR ''['' \<notin> set k" and "Contains tail CHR ''?''"
    and "\<not> (HasPrefix tail ''?('' \<and> HasSuffix tail '')'')"
  shows "parse_token (k @ ''['' @ tail @ '']'') = (''filter'', k, ArgsNil, None)"
proof -
  let ?token = "k @ ''['' @ tail @ '']''"
  from assms(2) have ne: "tail \<noteq> []" by (auto simp add: Contains_def)
  have len: "length (CHR ''['' # tail @ '']'') \<ge> 3" using ne by (cases tail) auto
  have t1: "?token \<noteq> ''$''" and t2: "?token \<noteq> ''*''"
    using ne by (cases k; cases tail; simp)+
  have idx: "Index ?token CHR ''['' = Some (length k)"
    using Index_append_char [OF assms(1)] by simp
  have inner: "butlast (tl (CHR ''['' # tail @ '']'')) = tail" by (simp add: butlast_append)
  show ?thesis
    using t1 t2 idx len inner ne assms(2,3) by (simp add: parse_token_def Let_def)
qed

theorem filter_without_wrapper_compiles_witness:
  "CHR ''['' \<notin> set []
   \<and> Contains ''?x'' CHR ''?''
   \<and> \<not> (HasPrefix ''?x'' ''?('' \<and> HasSuffix ''?x'' '')'')
   \<and> parse_token ''[?x]'' = (''filter'', [], ArgsNil, None)
   \<and> Compile ''$[?x]''
       = Inr \<lparr>path = ''$[?x]'', steps = [\<lparr>op = ''filter'', key = [], args = ArgsNil\<rparr>]\<rparr>"
proof -
  have a: "CHR ''['' \<notin> set []" by simp
  have b: "Contains ''?x'' CHR ''?''" by (simp add: Contains_def)
  have c: "\<not> (HasPrefix ''?x'' ''?('' \<and> HasSuffix ''?x'' '')'')" by (simp add: HasPrefix_def)
  have "parse_token ([] @ ''['' @ ''?x'' @ '']'') = (''filter'', [], ArgsNil, None)"
    by (rule filter_without_wrapper_compiles [OF a b c])
  then have d: "parse_token ''[?x]'' = (''filter'', [], ArgsNil, None)" by simp
  from a b c d compile_bare_question show ?thesis by blast
qed

subsection \<open>Indexing\<close>

text \<open>
  C7. For every array of length \<open>L\<close>: \<^verbatim>\<open>get_idx\<close> with index \<open>-1\<close> returns what index
  \<open>L-1\<close> returns, and with index \<open>-L\<close> what index \<open>0\<close> returns (the last and the
  first element when the array is not empty); index \<open>-(L+1)\<close> and every index
  \<open>\<ge> L\<close> fail with the index-out-of-range error.
\<close>

theorem get_idx_negative_index:
  "get_idx (Some (VArray a)) (- 1) = get_idx (Some (VArray a)) (int (length a) - 1)
   \<and> get_idx (Some (VArray a)) (- int (length a)) = get_idx (Some (VArray a)) 0
   \<and> (a \<noteq> [] \<longrightarrow> get_idx (Some (VArray a)) (- 1) = Inr (last a)
                \<and> get_idx (Some (VArray a)) (- int (length a)) = Inr (hd a))
   \<and> get_idx (Some (VArray a)) (- (int (length a) + 1))
       = Inl (Err (ErrIndexOutOfRange (int (length a)) (- (int (length a) + 1))))
   \<and> (\<forall>i \<ge> int (length a). get_idx (Some (VArray a)) i
         = Inl (Err (ErrIndexOutOfRange (int (length a)) i)))"
proof (cases a)
  case Nil
  then show ?thesis by simp
next
  case (Cons x xs)
  have "(x # xs) ! length xs = last (x # xs)"
    by (metis last_conv_nth length_Cons diff_Suc_1 list.distinct(1))
  with Cons show ?thesis by (simp add: Let_def nat_add_distrib)
qed

theorem get_idx_negative_index_witness:
  "[Some VTrue, Some VFalse] \<noteq> []
   \<and> get_idx (Some (VArray [Some VTrue, Some VFalse])) (- 1) = Inr (Some VFalse)
   \<and> get_idx (Some (VArray [Some VTrue, Some VFalse])) 1 = Inr (Some VFalse)
   \<and> get_idx (Some (VArray [Some VTrue, Some VFalse])) (- 2) = Inr (Some VTrue)
   \<and> get_idx (Some (VArray [Some VTrue, Some VFalse])) 0 = Inr (Some VTrue)
   \<and> get_idx (Some (VArray [Some VTrue, Some VFalse])) (- 3)
       = Inl (Err (ErrIndexOutOfRange 2 (- 3)))
   \<and> int (length [Some VTrue, Some VFalse]) \<le> 5
   \<and> get_idx (Some (VArray [Some VTrue, Some VFalse])) 5
       = Inl (Err (ErrIndexOutOfRange 2 5))"
  using get_idx_negative_index [of "[Some VTrue, Some VFalse]"] by simp

subsection \<open>Broadcasting a key over an array\<close>

text \<open>
  C8, as claimed: for every array \<open>A\<close> and key \<open>k\<close>, element \<open>i\<close> of the result is
  null exactly when element \<open>i\<close> of \<open>A\<close> lacks \<open>k\<close>. With the empty key \<^verbatim>\<open>get_key\<close>
  returns its argument before it looks at the type: the element of the result is the
  object itself, which has no field of that name.
\<close>

theorem get_key_broadcast_empty_key:
  "get_key (Some (VArray [Some (VObject [])])) [] = Inr (Some (VArray [Some (VObject [])]))
   \<and> Get (Some (VObject [])) [] = None"
  by simp

text \<open>
  C8, amended. For every array \<open>A\<close> and every key \<open>k\<close> that is not empty, resolving
  \<open>k\<close> against \<open>A\<close> does not fail: it returns an array of the length of \<open>A\<close> whose
  element \<open>i\<close> is what \<^verbatim>\<open>Get\<close> finds for \<open>k\<close> in element \<open>i\<close> of \<open>A\<close>; when that
  element is an object, the result's element is nil exactly when the object has no
  field \<open>k\<close> (a field holding the JSON null is found, and is not nil).
\<close>

theorem get_key_broadcast:
  "k \<noteq> [] \<Longrightarrow>
     get_key (Some (VArray A)) k = Inr (Some (VArray (map (\<lambda>x. Get x k) A)))
     \<and> length (map (\<lambda>x. Get x k) A) = length A
     \<and> (\<forall>i < length A. \<forall>kvs. A ! i = Some (VObject kvs) \<longrightarrow>
           (map (\<lambda>x. Get x k) A ! i = None) = (k \<notin> fst ` set kvs))"
  by (simp add: map_of_eq_None_iff)

theorem get_key_broadcast_witness:
  "''k'' \<noteq> []
   \<and> (1::nat) < length [Some (VObject [(''k'', VNull)]), Some (VObject [(''j'', VTrue)])]
   \<and> [Some (VObject [(''k'', VNull)]), Some (VObject [(''j'', VTrue)])] ! 1
       = Some (VObject [(''j'', VTrue)])
   \<and> ''k'' \<notin> fst ` set [(''j'', VTrue)]
   \<and> get_key (Some (VArray [Some (VObject [(''k'', VNull)]), Some (VObject [(''j'', VTrue)])])) ''k''
       = Inr (Some (VArray [Some VNull, None]))"
  using get_key_broadcast [of "''k''" "[Some (VObject [(''k'', VNull)]), Some (VObject [(''j'', VTrue)])]"]
  by simp

subsection \<open>Filtering a single value\<close>

text \<open>
  C9, as claimed: a filter step on a value of any type but array takes the value as
  its one candidate, and a predicate that does not match gives no value and no
  error. On a string, \<^verbatim>\<open>get_filtered\<close> takes its default branch and \<^verbatim>\<open>Lookup\<close>
  returns the error.
\<close>

theorem filter_on_string_fails:
  "JsonPathLookup ext_sample (Some (VObject [(''a'', VString ''x'')])) ''$.a[?(@.b)]''
     = Inl (Err ErrFilterType)"
  by code_simp

text \<open>
  C9, amended. For every filter step whose key-resolved value is an object, the
  object is the one candidate: when the predicate matches it (\<^verbatim>\<open>eval_filter\<close>, or
  \<^verbatim>\<open>eval_reg_filter\<close> with the compiled pattern for \<^verbatim>\<open>=~\<close>), \<^verbatim>\<open>Lookup\<close> goes on with
  the object, and when it does not, \<^verbatim>\<open>Lookup\<close> returns no value and no error. When
  the value is neither an array nor an object, \<^verbatim>\<open>Lookup\<close> returns an error.
\<close>

theorem filter_step_single_value:
  assumes "op s = ''filter''" and "args s = ArgsString flt"
    and "get_key obj (key s) = Inr (Some v)"
  shows "(\<forall>kvs lp opr rp ok. v = VObject kvs \<longrightarrow> parse_filter flt = Inr (lp, opr, rp) \<longrightarrow>
            opr \<noteq> ''=~'' \<longrightarrow> eval_filter E (Some v) root lp opr rp = Inr ok \<longrightarrow>
            Lookup_loop E root (s # ss) obj
              = (if ok then Lookup_loop E root ss (Some v) else Inr None))
       \<and> (\<forall>kvs lp rp pat ok. v = VObject kvs \<longrightarrow> parse_filter flt = Inr (lp, ''=~'', rp) \<longrightarrow>
            regFilterCompile E rp = Inr pat \<longrightarrow> eval_reg_filter (Some v) root lp pat = Inr ok \<longrightarrow>
            Lookup_loop E root (s # ss) obj
              = (if ok then Lookup_loop E root ss (Some v) else Inr None))
       \<and> ((\<forall>kvs. v \<noteq> VObject kvs) \<longrightarrow> (\<forall>a. v \<noteq> VArray a) \<longrightarrow>
            (\<exists>e. Lookup_loop E root (s # ss) obj = Inl (Err e)))"
proof (intro conjI allI impI)
  fix kvs lp opr rp ok
  assume v: "v = VObject kvs" and p: "parse_filter flt = Inr (lp, opr, rp)"
    and o: "opr \<noteq> ''=~''" and e: "eval_filter E (Some v) root lp opr rp = Inr ok"
  have "get_filtered E (Some v) root flt = Inr (False, if ok then [Some v] else [])"
    using p o e v by (simp add: get_filtered_def)
  then show "Lookup_loop E root (s # ss) obj
      = (if ok then Lookup_loop E root ss (Some v) else Inr None)"
    using assms by (simp add: step_filter_def)
next
  fix kvs lp rp pat ok
  assume v: "v = VObject kvs" and p: "parse_filter flt = Inr (lp, ''=~'', rp)"
    and c: "regFilterCompile E rp = Inr pat"
    and e: "eval_reg_filter (Some v) root lp pat = Inr ok"
  have "get_filtered E (Some v) root flt = Inr (False, if ok then [Some v] else [])"
    using p c e v by (simp add: get_filtered_def)
  then show "Lookup_loop E root (s # ss) obj
      = (if ok then Lookup_loop E root ss (Some v) else Inr None)"
    using assms by (simp add: step_filter_def)
next
  assume "\<forall>kvs. v \<noteq> VObject kvs" and "\<forall>a. v \<noteq> VArray a"
  then have "\<exists>e. get_filtered E (Some v) root flt = Inl (Err e)"
    by (rule get_filtered_scalar)
  then show "\<exists>e. Lookup_loop E root (s # ss) obj = Inl (Err e)"
    using assms by (auto simp add: step_filter_def)
qed

theorem filter_step_single_value_witness:
  "op \<lparr>op = ''filter'', key = ''a'', args = ArgsString ''@.b''\<rparr> = ''filter''
   \<and> get_key (Some (VObject [(''a'', VObject [(''b'', VString ''x'')])])) ''a''
       = Inr (Some (VObject [(''b'', VString ''x'')]))
   \<and> parse_filter ''@.b'' = Inr (''@.b'', ''exists'', [])
   \<and> ''exists'' \<noteq> ''=~''
   \<and> eval_filter ext_sample (Some (VObject [(''b'', VString ''x'')])) (Some VNull) ''@.b'' ''exists'' []
       = Inr True
   \<and> Lookup_loop ext_sample (Some VNull)
        [\<lparr>op = ''filter'', key = ''a'', args = ArgsString ''@.b''\<rparr>]
        (Some (VObject [(''a'', VObject [(''b'', VString ''x'')])]))
       = Inr (Some (VObject [(''b'', VString ''x'')]))
   \<and> parse_filter ''@.c'' = Inr (''@.c'', ''exists'', [])
   \<and> eval_filter ext_sample (Some (VObject [(''b'', VString ''x'')])) (Some VNull) ''@.c'' ''exists'' []
       = Inr False
   \<and> Lookup_loop ext_sample (Some VNull)
        [\<lparr>op = ''filter'', key = ''a'', args = ArgsString ''@.c''\<rparr>]
        (Some (VObject [(''a'', VObject [(''b'', VString ''x'')])]))
       = Inr None
   \<and> parse_filter ''@.b =~ /.*/'' = Inr (''@.b'', ''=~'', ''/.*/'')
   \<and> regFilterCompile ext_sample ''/.*/'' = Inr (\<lambda>s. True)
   \<and> eval_reg_filter (Some (VObject [(''b'', VString ''x'')])) (Some VNull) ''@.b'' (\<lambda>s. True)
       = Inr True
   \<and> Lookup_loop ext_sample (Some VNull)
        [\<lparr>op = ''filter'', key = ''a'', args = ArgsString ''@.b =~ /.*/''\<rparr>]
        (Some (VObject [(''a'', VObject [(''b'', VString ''x'')])]))
       = Inr (Some (VObject [(''b'', VString ''x'')]))
   \<and> get_key (Some (VObject [(''a'', VString ''x'')])) ''a'' = Inr (Some (VString ''x''))
   \<and> Lookup_loop ext_sample (Some VNull)
        [\<lparr>op = ''filter'', key = ''a'', args = ArgsString ''@.b''\<rparr>]
        (Some (VObject [(''a'', VString ''x'')]))
       = Inl (Err ErrFilterType)"
proof -
  let ?a = "VObject [(''b'', VString ''x'')]"
  let ?o = "Some (VObject [(''a'', ?a)])"
  let ?s1 = "\<lparr>op = ''filter'', key = ''a'', args = ArgsString ''@.b''\<rparr>"
  let ?s2 = "\<lparr>op = ''filter'', key = ''a'', args = ArgsString ''@.c''\<rparr>"
  let ?s3 = "\<lparr>op = ''filter'', key = ''a'', args = ArgsString ''@.b =~ /.*/''\<rparr>"
  have k: "get_key ?o ''a'' = Inr (Some ?a)" by code_simp
  have p1: "parse_filter ''@.b'' = Inr (''@.b'', ''exists'', [])" by code_simp
  have e1: "eval_filter ext_sample (Some ?a) (Some VNull) ''@.b'' ''exists'' [] = Inr True"
    by code_simp
  have p2: "parse_filter ''@.c'' = Inr (''@.c'', ''exists'', [])" by code_simp
  have e2: "eval_filter ext_sample (Some ?a) (Some VNull) ''@.c'' ''exists'' [] = Inr False"
    by code_simp
  have p3: "parse_filter ''@.b =~ /.*/'' = Inr (''@.b'', ''=~'', ''/.*/'')" by code_simp
  have r3: "regFilterCompile ext_sample ''/.*/'' = Inr (\<lambda>s. True)"
    by (simp add: regFilterCompile_def rune_count_def ord_def ext_sample_def)
  have e3: "eval_reg_filter (Some ?a) (Some VNull) ''@.b'' (\<lambda>s. True) = Inr True"
    by code_simp
  have k4: "get_key (Some (VObject [(''a'', VString ''x'')])) ''a'' = Inr (Some (VString ''x''))"
    by code_simp
  have l4: "Lookup_loop ext_sample (Some VNull) [?s1] (Some (VObject [(''a'', VString ''x'')]))
      = Inl (Err ErrFilterType)"
    by code_simp
  have ne: "''exists'' \<noteq> ''=~''" by simp
  have o1: "op ?s1 = ''filter''" and o2: "op ?s2 = ''filter''" and o3: "op ?s3 = ''filter''"
    by simp_all
  have g1: "args ?s1 = ArgsString ''@.b''" and g2: "args ?s2 = ArgsString ''@.c''"
    and g3: "args ?s3 = ArgsString ''@.b =~ /.*/''"
    by simp_all
  have k1: "get_key ?o (key ?s1) = Inr (Some ?a)" and k2: "get_key ?o (key ?s2) = Inr (Some ?a)"
    and k3: "get_key ?o (key ?s3) = Inr (Some ?a)"
    using k by simp_all
  have a1: "Lookup_loop ext_sample (Some VNull) [?s1] ?o
      = (if True then Lookup_loop ext_sample (Some VNull) [] (Some ?a) else Inr None)"
    using filter_step_single_value [OF o1 g1 k1, of ext_sample "Some VNull" "[]"] p1 ne e1
    by blast
  have a2: "Lookup_loop ext_sample (Some VNull) [?s2] ?o
      = (if False then Lookup_loop ext_sample (Some VNull) [] (Some ?a) else Inr None)"
    using filter_step_single_value [OF o2 g2 k2, of ext_sample "Some VNull" "[]"] p2 ne e2
    by blast
  have a3: "Lookup_loop ext_sample (Some VNull) [?s3] ?o
      = (if True then Lookup_loop ext_sample (Some VNull) [] (Some ?a) else Inr None)"
    using filter_step_single_value [OF o3 g3 k3, of ext_sample "Some VNull" "[]"] p3 r3 e3
    by blast
  show ?thesis using k p1 e1 a1 p2 e2 a2 p3 r3 e3 a3 k4 l4 by simp
qed

subsection \<open>Comparing filter operands\<close>

text \<open>
  C10. Two operands that are not both numbers are claimed to compare as strings, in
  lexicographic order, also when they contain quote characters. \<^verbatim>\<open>cmp_any\<close> pastes
  the two texts between double quotes into one Go expression and hands it to
  \<^verbatim>\<open>types.Eval\<close>, without escaping them. The operands \<^verbatim>\<open>b\<close> and \<^verbatim>\<open>a" < "c\<close> give the
  same expression \<^verbatim>\<open>"b" < "a" < "c"\<close> as the operands \<^verbatim>\<open>b" < "a\<close> and \<^verbatim>\<open>c\<close>, so
  \<^verbatim>\<open>cmp_any\<close> returns the same for both pairs whatever \<^verbatim>\<open>types.Eval\<close> computes,
  while the first pair is not in order and the second is.
\<close>

theorem cmp_any_unescaped_operands:
  assumes \<open>\<not> ParseFloat_ok E ''b''\<close> and \<open>\<not> ParseFloat_ok E ''b" < "a''\<close>
  shows \<open>cmp_any E (Some (VString ''b'')) (Some (VString ''a" < "c'')) ''<''
           = cmp_any E (Some (VString ''b" < "a'')) (Some (VString ''c'')) ''<''
       \<and> spec_string_compare ''<'' ''b'' ''a" < "c'' = False
       \<and> spec_string_compare ''<'' ''b" < "a'' ''c'' = True
       \<and> \<not> (cmp_any E (Some (VString ''b'')) (Some (VString ''a" < "c'')) ''<''
               = Inr (spec_string_compare ''<'' ''b'' ''a" < "c'')
            \<and> cmp_any E (Some (VString ''b" < "a'')) (Some (VString ''c'')) ''<''
               = Inr (spec_string_compare ''<'' ''b" < "a'' ''c''))\<close>
proof -
  have 1: \<open>spec_string_compare ''<'' ''b'' ''a" < "c'' = False\<close>
    by (simp add: spec_string_compare_def less_char_def)
  have 2: \<open>spec_string_compare ''<'' ''b" < "a'' ''c'' = True\<close>
    by (simp add: spec_string_compare_def less_char_def)
  have 3: \<open>cmp_any E (Some (VString ''b'')) (Some (VString ''a" < "c'')) ''<''
         = cmp_any E (Some (VString ''b" < "a'')) (Some (VString ''c'')) ''<''\<close>
    using assms by (simp add: cmp_any_def)
  from 1 2 3 show ?thesis by simp
qed

theorem cmp_any_unescaped_operands_witness:
  \<open>\<not> ParseFloat_ok ext_sample ''b''
   \<and> \<not> ParseFloat_ok ext_sample ''b" < "a''
   \<and> cmp_any ext_sample (Some (VString ''b'')) (Some (VString ''a" < "c'')) ''<''
       = cmp_any ext_sample (Some (VString ''b" < "a'')) (Some (VString ''c'')) ''<''
   \<and> spec_string_compare ''<'' ''b'' ''a" < "c'' = False
   \<and> spec_string_compare ''<'' ''b" < "a'' ''c'' = True\<close>
proof -
  have a: \<open>\<not> ParseFloat_ok ext_sample ''b''\<close>
    and b: \<open>\<not> ParseFloat_ok ext_sample ''b" < "a''\<close>
    by (simp_all add: ext_sample_def)
  from cmp_any_unescaped_operands [OF a b] a b show ?thesis by blast
qed

end
